theory Spec2Isabelle
  imports Main "HOL-Library.Product_Lexorder"
begin

section \<open>Exceptions\<close>

text \<open>
  Every exception class that the program can raise or let through is a value. A function
  that can raise returns \<open>exn + 'a\<close>, with \<open>Inl\<close> for the exception.
  \<open>SQLError\<close> and \<open>BindingsError\<close> are the database driver's errors for a statement
  that cannot be prepared and for a wrong number of bindings.
\<close>

datatype exn =
    AO3Exception
  | AtlasException
  | FicHubException
  | IndexError
  | ValueError
  | AttributeError
  | KeyError
  | SQLError
  | BindingsError
  | OtherException

section \<open>The settings store\<close>

text \<open>
  \<open>AutoresponseLocation\<close> is the named tuple \<open>(guild_id, channel_id)\<close>. The database
  connection is the set of its tables, by name; a table holds its rows in primary-key
  order (the table is declared \<open>WITHOUT ROWID\<close> with the primary key
  \<open>(guild_id, channel_id)\<close>), without duplicates.
\<close>

type_synonym AutoresponseLocation = "int \<times> int"

abbreviation guild_id :: "AutoresponseLocation \<Rightarrow> int" where
  "guild_id \<equiv> fst"

abbreviation channel_id :: "AutoresponseLocation \<Rightarrow> int" where
  "channel_id \<equiv> snd"

type_synonym connection = "string \<rightharpoonup> AutoresponseLocation list"

text \<open>
  The six SQL statements of the program. Each names the table it works on, as the
  statement's text does.
\<close>

datatype statement =
    CreateTableIfNotExists string
  | SelectAll string
  | SelectWhereGuild string
  | InsertOnConflictDoNothing string
  | DeleteWhereChannel string
  | DeleteWhereGuild string

definition INITIALIZATION_STATEMENT :: statement where
  "INITIALIZATION_STATEMENT = CreateTableIfNotExists ''webfic_autoresponse_settings''"

definition SELECT_ALL_STATEMENT :: statement where
  "SELECT_ALL_STATEMENT = SelectAll ''webfic_autoresponse_settings''"

definition SELECT_BY_GUILD_STATEMENT :: statement where
  "SELECT_BY_GUILD_STATEMENT = SelectWhereGuild ''webfic_autoresponse_settings''"

definition INSERT_CHANNEL_STATEMENT :: statement where
  "INSERT_CHANNEL_STATEMENT = InsertOnConflictDoNothing ''webfic_autoresponse_settings''"

definition REMOVE_GUILD_CHANNEL_STATEMENT :: statement where
  "REMOVE_GUILD_CHANNEL_STATEMENT = DeleteWhereChannel ''fanfic_autoresponse_settings''"

definition CLEAR_GUILD_CHANNELS_STATEMENT :: statement where
  "CLEAR_GUILD_CHANNELS_STATEMENT = DeleteWhereGuild ''fanfic_autoresponse_settings''"

text \<open>The number of \<open>?\<close> placeholders of a statement.\<close>

fun placeholders :: "statement \<Rightarrow> nat" where
  "placeholders (CreateTableIfNotExists t) = 0"
| "placeholders (SelectAll t) = 0"
| "placeholders (SelectWhereGuild t) = 1"
| "placeholders (InsertOnConflictDoNothing t) = 2"
| "placeholders (DeleteWhereChannel t) = 1"
| "placeholders (DeleteWhereGuild t) = 1"

fun table_of :: "statement \<Rightarrow> string" where
  "table_of (CreateTableIfNotExists t) = t"
| "table_of (SelectAll t) = t"
| "table_of (SelectWhereGuild t) = t"
| "table_of (InsertOnConflictDoNothing t) = t"
| "table_of (DeleteWhereChannel t) = t"
| "table_of (DeleteWhereGuild t) = t"

text \<open>
  \<open>cursor.execute\<close>: the statement is prepared first, which fails with \<open>SQLError\<close>
  (no such table) when the table does not exist, except for \<open>CREATE TABLE IF NOT EXISTS\<close>;
  then the bindings are applied, which fails with \<open>BindingsError\<close> when their number is
  not the number of placeholders; then the statement runs. The result is the new
  connection state and the rows returned.
\<close>

fun run :: "statement \<Rightarrow> int list \<Rightarrow> AutoresponseLocation list
    \<Rightarrow> AutoresponseLocation list \<times> AutoresponseLocation list" where
  "run (CreateTableIfNotExists t) bs rows = (rows, [])"
| "run (SelectAll t) bs rows = (rows, rows)"
| "run (SelectWhereGuild t) bs rows = (rows, filter (\<lambda>r. guild_id r = bs ! 0) rows)"
| "run (InsertOnConflictDoNothing t) bs rows =
     (if (bs ! 0, bs ! 1) \<in> set rows then rows else insort (bs ! 0, bs ! 1) rows, [])"
| "run (DeleteWhereChannel t) bs rows = (filter (\<lambda>r. channel_id r \<noteq> bs ! 0) rows, [])"
| "run (DeleteWhereGuild t) bs rows = (filter (\<lambda>r. guild_id r \<noteq> bs ! 0) rows, [])"

definition execute :: "connection \<Rightarrow> statement \<Rightarrow> int list
    \<Rightarrow> exn + connection \<times> AutoresponseLocation list" where
  "execute conn st bs =
     (case conn (table_of st) of
        None \<Rightarrow>
          (case st of
             CreateTableIfNotExists t \<Rightarrow>
               if length bs = 0 then Inr (conn(t \<mapsto> []), []) else Inl BindingsError
           | _ \<Rightarrow> Inl SQLError)
      | Some rows \<Rightarrow>
          if length bs \<noteq> placeholders st then Inl BindingsError
          else (case run st bs rows of (rows', out) \<Rightarrow> Inr (conn(table_of st \<mapsto> rows'), out)))"

text \<open>
  \<open>cursor.executemany\<close> runs the statement once for each element of the sequence, in
  order, and stops at the first error. With an empty sequence the statement is not even
  prepared.
\<close>

fun executemany :: "connection \<Rightarrow> statement \<Rightarrow> int list list \<Rightarrow> exn + connection" where
  "executemany conn st [] = Inr conn"
| "executemany conn st (bs # bss) =
     (case execute conn st bs of
        Inl e \<Rightarrow> Inl e
      | Inr (conn', out) \<Rightarrow> executemany conn' st bss)"

text \<open>A location passed as bindings is the sequence of its two fields.\<close>

definition bindings :: "AutoresponseLocation \<Rightarrow> int list" where
  "bindings l = [guild_id l, channel_id l]"

text \<open>
  Each operation runs inside \<open>with conn:\<close>, a transaction that is rolled back when the
  body raises: the operation returns its outcome and the connection state after it,
  which is the state before it when the outcome is an exception.
\<close>

definition setup_db :: "connection \<Rightarrow> (exn + unit) \<times> connection" where
  "setup_db conn =
     (case execute conn INITIALIZATION_STATEMENT [] of
        Inl e \<Rightarrow> (Inl e, conn)
      | Inr (conn', out) \<Rightarrow> (Inr (), conn'))"

definition query :: "connection \<Rightarrow> statement \<Rightarrow> int list
    \<Rightarrow> (exn + AutoresponseLocation list) \<times> connection" where
  "query conn query_str params =
     (case execute conn query_str params of
        Inl e \<Rightarrow> (Inl e, conn)
      | Inr (conn', out) \<Rightarrow> (Inr out, conn'))"

definition add :: "connection \<Rightarrow> AutoresponseLocation list
    \<Rightarrow> (exn + AutoresponseLocation list) \<times> connection" where
  "add conn locations =
     (case executemany conn INSERT_CHANNEL_STATEMENT (map bindings locations) of
        Inl e \<Rightarrow> (Inl e, conn)
      | Inr conn' \<Rightarrow>
          (case locations of
             [] \<Rightarrow> (Inl IndexError, conn)
           | l # ls \<Rightarrow>
               (case execute conn' SELECT_BY_GUILD_STATEMENT [guild_id l] of
                  Inl e \<Rightarrow> (Inl e, conn)
                | Inr (conn'', out) \<Rightarrow> (Inr out, conn''))))"

definition drop_locations :: "connection \<Rightarrow> AutoresponseLocation list
    \<Rightarrow> (exn + AutoresponseLocation list) \<times> connection" where
  "drop_locations conn locations =
     (case executemany conn REMOVE_GUILD_CHANNEL_STATEMENT (map bindings locations) of
        Inl e \<Rightarrow> (Inl e, conn)
      | Inr conn' \<Rightarrow>
          (case locations of
             [] \<Rightarrow> (Inl IndexError, conn)
           | l # ls \<Rightarrow>
               (case execute conn' SELECT_BY_GUILD_STATEMENT [guild_id l] of
                  Inl e \<Rightarrow> (Inl e, conn)
                | Inr (conn'', out) \<Rightarrow> (Inr out, conn''))))"

definition clear :: "connection \<Rightarrow> int \<Rightarrow> (exn + unit) \<times> connection" where
  "clear conn gid =
     (case execute conn CLEAR_GUILD_CHANNELS_STATEMENT [gid] of
        Inl e \<Rightarrow> (Inl e, conn)
      | Inr (conn', out) \<Rightarrow> (Inr (), conn'))"

definition get_guild_autoresponse_channels :: "connection \<Rightarrow> int
    \<Rightarrow> (exn + AutoresponseLocation list) \<times> connection" where
  "get_guild_autoresponse_channels conn gid = query conn SELECT_BY_GUILD_STATEMENT [gid]"

text \<open>The store after \<open>_setup_db\<close> on a new database file.\<close>

definition fresh_store :: connection where
  "fresh_store = snd (setup_db Map.empty)"

section \<open>Strings, numbers and dates\<close>

text \<open>
  A string is the list of its code points, and \<open>length\<close> is Python's \<open>len\<close>. The
  pictographs and the bullet of the card texts are one code point each; each is written
  here as one character, so that lengths agree with the program's.
\<close>

definition SCROLL :: char where "SCROLL = CHR 0xDC"
definition OPEN_BOOK :: char where "OPEN_BOOK = CHR 0xD6"
definition BOOKMARK :: char where "BOOKMARK = CHR 0xB6"
definition BAR_CHART :: char where "BAR_CHART = CHR 0xCA"
definition BOOKS :: char where "BOOKS = CHR 0xDA"
definition BULLET :: char where "BULLET = CHR 0x95"

text \<open>\<open>sep.join(xs)\<close>.\<close>

fun join :: "string \<Rightarrow> string list \<Rightarrow> string" where
  "join sep [] = []"
| "join sep [x] = x"
| "join sep (x # y # ys) = x @ sep @ join sep (y # ys)"

text \<open>\<open>str(n)\<close> for an integer, and the format \<open>{n:,d}\<close> with thousands separators.\<close>

definition digit_char :: "nat \<Rightarrow> char" where
  "digit_char d = char_of (48 + d)"

fun str_nat :: "nat \<Rightarrow> string" where
  "str_nat n = (if n < 10 then [digit_char n] else str_nat (n div 10) @ [digit_char (n mod 10)])"

definition str_int :: "int \<Rightarrow> string" where
  "str_int i = (if i < 0 then CHR ''-'' # str_nat (nat (- i)) else str_nat (nat i))"

definition pad3 :: "nat \<Rightarrow> string" where
  "pad3 n = [digit_char (n div 100 mod 10), digit_char (n div 10 mod 10), digit_char (n mod 10)]"

fun commas_nat :: "nat \<Rightarrow> string" where
  "commas_nat n =
     (if n < 1000 then str_nat n else commas_nat (n div 1000) @ '','' @ pad3 (n mod 1000))"

definition commas :: "int \<Rightarrow> string" where
  "commas i = (if i < 0 then CHR ''-'' # commas_nat (nat (- i)) else commas_nat (nat i))"

text \<open>\<open>str(x)\<close> and \<open>f"{x}"\<close> for a string that may be \<open>None\<close>.\<close>

definition str_opt :: "string option \<Rightarrow> string" where
  "str_opt x = (case x of None \<Rightarrow> ''None'' | Some s \<Rightarrow> s)"

text \<open>\<open>str.capitalize()\<close>: the first character in upper case, the rest in lower case.\<close>

definition upper_char :: "char \<Rightarrow> char" where
  "upper_char c =
     (if 97 \<le> (of_char c :: nat) \<and> (of_char c :: nat) \<le> 122
      then char_of (of_char c - (32::nat)) else c)"

definition lower_char :: "char \<Rightarrow> char" where
  "lower_char c =
     (if 65 \<le> (of_char c :: nat) \<and> (of_char c :: nat) \<le> 90
      then char_of (of_char c + (32::nat)) else c)"

definition capitalize :: "string \<Rightarrow> string" where
  "capitalize s = (case s of [] \<Rightarrow> [] | c # cs \<Rightarrow> upper_char c # map lower_char cs)"

text \<open>\<open>a in b\<close> for strings: \<open>a\<close> is a substring of \<open>b\<close>.\<close>

fun startswith :: "string \<Rightarrow> string \<Rightarrow> bool" where
  "startswith [] s = True"
| "startswith (p # ps) [] = False"
| "startswith (p # ps) (c # cs) = (p = c \<and> startswith ps cs)"

fun contains :: "string \<Rightarrow> string \<Rightarrow> bool" where
  "contains a [] = startswith a []"
| "contains a (c # cs) = (startswith a (c # cs) \<or> contains a cs)"

text \<open>
  \<open>int(s)\<close> on a string of decimal digits, as the patterns' \<open>\d+\<close> groups are. The
  characters are the ASCII digits; the whitespace characters are those of \<open>str.isspace\<close>
  up to code point 255.
\<close>

definition is_digit :: "char \<Rightarrow> bool" where
  "is_digit c = (48 \<le> (of_char c :: nat) \<and> (of_char c :: nat) \<le> 57)"

definition is_space :: "char \<Rightarrow> bool" where
  "is_space c = (let n = (of_char c :: nat) in
     (9 \<le> n \<and> n \<le> 13) \<or> (28 \<le> n \<and> n \<le> 32) \<or> n = 133 \<or> n = 160)"

definition int_of_digits :: "string \<Rightarrow> int" where
  "int_of_digits s = foldl (\<lambda>a c. 10 * a + (int (of_char c) - 48)) 0 s"

text \<open>
  A \<open>datetime\<close>, and \<open>strftime("%B %d, %Y")\<close>: the month's name, the day on two digits,
  the year on four.
\<close>

datatype month =
    January | February | March | April | May | June
  | July | August | September | October | November | December

record datetime =
  year :: nat
  month :: month
  day :: nat
  hour :: nat
  minute :: nat
  second :: nat

fun month_name :: "month \<Rightarrow> string" where
  "month_name January = ''January''"
| "month_name February = ''February''"
| "month_name March = ''March''"
| "month_name April = ''April''"
| "month_name May = ''May''"
| "month_name June = ''June''"
| "month_name July = ''July''"
| "month_name August = ''August''"
| "month_name September = ''September''"
| "month_name October = ''October''"
| "month_name November = ''November''"
| "month_name December = ''December''"

definition strftime :: "datetime \<Rightarrow> string" where
  "strftime d =
     month_name (month d) @ '' '' @
     [digit_char (day d div 10 mod 10), digit_char (day d mod 10)] @ '', '' @
     digit_char (year d div 1000 mod 10) # pad3 (year d mod 1000)"

section \<open>The link detector\<close>

text \<open>
  The regular expressions of the site registry use literal text, \<open>\d+\<close>, \<open>\S*\<close>,
  concatenation, ordered alternation with an empty alternative, and named groups.
  \<open>matches r s\<close> lists every way \<open>r\<close> matches a prefix of \<open>s\<close>, in the order a
  backtracking matcher tries them (the first alternative first, the longest repetition
  first): each is the rest of \<open>s\<close> after the match and the groups closed by it, in the
  order they close.
\<close>

datatype regex =
    Lit string
  | Digits1
  | NonSpaces
  | Eps
  | Seq regex regex
  | Alt regex regex
  | Group string regex

fun strip_prefix :: "string \<Rightarrow> string \<Rightarrow> string option" where
  "strip_prefix [] s = Some s"
| "strip_prefix (p # ps) [] = None"
| "strip_prefix (p # ps) (c # cs) = (if p = c then strip_prefix ps cs else None)"

fun matches :: "regex \<Rightarrow> string \<Rightarrow> (string \<times> (string \<times> string) list) list" where
  "matches (Lit p) s = (case strip_prefix p s of None \<Rightarrow> [] | Some r \<Rightarrow> [(r, [])])"
| "matches Digits1 s =
     map (\<lambda>k. (drop k s, [])) (rev [1 ..< Suc (length (takeWhile is_digit s))])"
| "matches NonSpaces s =
     map (\<lambda>k. (drop k s, [])) (rev [0 ..< Suc (length (takeWhile (\<lambda>c. \<not> is_space c) s))])"
| "matches Eps s = [(s, [])]"
| "matches (Seq a b) s =
     concat (map (\<lambda>x. map (\<lambda>y. (fst y, snd x @ snd y)) (matches b (fst x))) (matches a s))"
| "matches (Alt a b) s = matches a s @ matches b s"
| "matches (Group n a) s =
     map (\<lambda>x. (fst x, snd x @ [(n, take (length s - length (fst x)) s)])) (matches a s)"

text \<open>
  A match object: where it starts, the text it matched (\<open>group(0)\<close>) and its groups.
  \<open>group\<close> is \<open>None\<close> for a group that took no part; \<open>lastgroup\<close> is the name of
  the group that closed last.
\<close>

record re_match =
  m_start :: nat
  m_text :: string
  m_groups :: "(string \<times> string) list"

definition group :: "re_match \<Rightarrow> string \<Rightarrow> string option" where
  "group m n = map_of (m_groups m) n"

definition lastgroup :: "re_match \<Rightarrow> string option" where
  "lastgroup m = (case m_groups m of [] \<Rightarrow> None | g # gs \<Rightarrow> Some (fst (last (g # gs))))"

definition match_at :: "regex \<Rightarrow> nat \<Rightarrow> string \<Rightarrow> re_match option" where
  "match_at r i s =
     (case matches r s of
        [] \<Rightarrow> None
      | x # xs \<Rightarrow>
          Some \<lparr>m_start = i, m_text = take (length s - length (fst x)) s, m_groups = snd x\<rparr>)"

text \<open>\<open>re.search\<close>: the match at the leftmost position that has one.\<close>

fun search_from :: "regex \<Rightarrow> nat \<Rightarrow> string \<Rightarrow> re_match option" where
  "search_from r i [] = match_at r i []"
| "search_from r i (c # cs) =
     (case match_at r i (c # cs) of
        Some m \<Rightarrow> Some m
      | None \<Rightarrow> search_from r (Suc i) cs)"

definition re_search :: "regex \<Rightarrow> string \<Rightarrow> re_match option" where
  "re_search r s = search_from r 0 s"

text \<open>
  \<open>re.finditer\<close>: the matches from left to right, each search starting where the
  previous match ended (one position further after an empty match). \<open>k\<close> counts the
  characters of the previous match that are still to be passed over.
\<close>

fun finditer_from :: "regex \<Rightarrow> nat \<Rightarrow> nat \<Rightarrow> string \<Rightarrow> re_match list" where
  "finditer_from r i k [] =
     (if k = 0 then (case match_at r i [] of None \<Rightarrow> [] | Some m \<Rightarrow> [m]) else [])"
| "finditer_from r i k (c # cs) =
     (if 0 < k then finditer_from r (Suc i) (k - 1) cs
      else (case match_at r i (c # cs) of
              None \<Rightarrow> finditer_from r (Suc i) 0 cs
            | Some m \<Rightarrow> m # finditer_from r (Suc i) (length (m_text m) - 1) cs))"

definition finditer :: "regex \<Rightarrow> string \<Rightarrow> re_match list" where
  "finditer r s = finditer_from r 0 0 s"

text \<open>The registry of sites. The logo of AO3 is a constant of the AO3 library.\<close>

datatype icon = IconUrl string | AO3_LOGO_URL

record StoryWebsite =
  site_name :: string
  acronym :: string
  story_regex :: regex
  icon_url :: icon

definition www_or_m :: regex where
  "www_or_m = Alt (Lit ''www.'') (Alt (Lit ''m.'') Eps)"

definition www_opt :: regex where
  "www_opt = Alt (Lit ''www.'') Eps"

definition FFN :: StoryWebsite where
  "FFN = \<lparr>site_name = ''FanFiction.Net'', acronym = ''FFN'',
     story_regex = Seq www_or_m (Seq (Lit ''fanfiction.net/s/'') (Group ''ffn_id'' Digits1)),
     icon_url = IconUrl ''https://www.fanfiction.net/static/icons3/ff-icon-128.png''\<rparr>"

definition FP :: StoryWebsite where
  "FP = \<lparr>site_name = ''FictionPress'', acronym = ''FP'',
     story_regex = Seq www_or_m (Seq (Lit ''fictionpress.com/s/'') Digits1),
     icon_url = IconUrl ''https://www.fanfiction.net/static/icons3/ff-icon-128.png''\<rparr>"

definition AO3 :: StoryWebsite where
  "AO3 = \<lparr>site_name = ''Archive of Our Own'', acronym = ''AO3'',
     story_regex =
       Seq www_opt (Seq (Lit ''archiveofourown.org/'')
         (Seq (Group ''type'' (Alt (Lit ''works'') (Lit ''series'')))
           (Seq (Lit ''/'') (Group ''ao3_id'' Digits1)))),
     icon_url = AO3_LOGO_URL\<rparr>"

definition SB :: StoryWebsite where
  "SB = \<lparr>site_name = ''SpaceBattles'', acronym = ''SB'',
     story_regex = Seq (Lit ''forums.spacebattles.com/threads/'') NonSpaces,
     icon_url = IconUrl
       ''https://forums.spacebattles.com/data/svg/2/1/1682578744/2022_favicon_192x192.png''\<rparr>"

definition SV :: StoryWebsite where
  "SV = \<lparr>site_name = ''Sufficient Velocity'', acronym = ''SV'',
     story_regex = Seq (Lit ''forums.sufficientvelocity.com/threads/'') NonSpaces,
     icon_url = IconUrl ''https://forums.sufficientvelocity.com/favicon-96x96.png?v=69wyvmQdJN''\<rparr>"

definition QQ :: StoryWebsite where
  "QQ = \<lparr>site_name = ''Questionable Questing'', acronym = ''QQ'',
     story_regex = Seq (Lit ''forums.questionablequesting.com/threads/'') NonSpaces,
     icon_url = IconUrl ''https://forums.questionablequesting.com/favicon.ico''\<rparr>"

definition SIYE :: StoryWebsite where
  "SIYE = \<lparr>site_name = ''Sink Into Your Eyes'', acronym = ''SIYE'',
     story_regex =
       Seq www_opt (Seq (Lit ''siye.co.uk/'') (Seq (Alt (Lit ''siye/'') Eps)
         (Seq (Lit ''viewstory.php?sid='') Digits1))),
     icon_url = IconUrl ''https://www.siye.co.uk/siye/favicon.ico''\<rparr>"

definition STORY_WEBSITE_STORE :: "(string \<times> StoryWebsite) list" where
  "STORY_WEBSITE_STORE =
     [(''FFN'', FFN), (''FP'', FP), (''AO3'', AO3), (''SB'', SB), (''SV'', SV), (''QQ'', QQ),
      (''SIYE'', SIYE)]"

text \<open>
  The combined pattern is the text \<open>(?:http://|https://|)\<close> followed by the sites'
  patterns, each in a group named by its key, joined with \<open>|\<close>. Alternation binds
  weakest, so the optional scheme belongs to the first alternative only.
\<close>

definition alternatives :: "(string \<times> StoryWebsite) list \<Rightarrow> regex list" where
  "alternatives kvs = map (\<lambda>kv. Group (fst kv) (story_regex (snd kv))) kvs"

fun alts :: "regex \<Rightarrow> regex list \<Rightarrow> regex" where
  "alts r [] = r"
| "alts r (r' # rs) = Alt r (alts r' rs)"

definition STORY_WEBSITE_REGEX :: regex where
  "STORY_WEBSITE_REGEX =
     (case alternatives STORY_WEBSITE_STORE of
        [] \<Rightarrow> Alt (Lit ''http://'') (Alt (Lit ''https://'') Eps)
      | r # rs \<Rightarrow> alts (Seq (Alt (Lit ''http://'') (Alt (Lit ''https://'') Eps)) r) rs)"

section \<open>Provider records\<close>

text \<open>
  The records of the three provider libraries, with the fields the program reads.
  A creator's name may be \<open>None\<close>. A dictionary is an association list.
\<close>

record ao3_user =
  user_name :: "string option"

record ao3_work =
  work_title :: string
  work_url :: string
  work_authors :: "ao3_user list"
  work_date_updated :: "datetime option"
  work_is_complete :: bool
  work_fandoms :: "string list"
  work_categories :: "string list"
  work_characters :: "string list"
  work_rating :: string
  work_summary :: string
  work_nwords :: int
  work_nchapters :: int
  work_ncomments :: int
  work_nkudos :: int
  work_nbookmarks :: int
  work_nhits :: int

record ao3_series =
  series_name :: string
  series_url :: string
  series_creators :: "ao3_user list"
  series_description :: string
  series_date_updated :: "datetime option"
  series_is_complete :: bool
  series_nwords :: int
  series_nworks :: int
  series_works_list :: "ao3_work list"

record story_author =
  author_name :: string
  author_url :: string

record atlas_story =
  atlas_title :: string
  atlas_url :: string
  atlas_description :: string
  atlas_author :: story_author
  atlas_updated :: "datetime option"
  atlas_published :: datetime
  atlas_is_complete :: bool
  atlas_fandoms :: "string list"
  atlas_genres :: "string list"
  atlas_characters :: "string list"
  atlas_rating :: string
  atlas_words :: int
  atlas_chapters :: int
  atlas_reviews :: int
  atlas_favorites :: int
  atlas_follows :: int

record fichub_story =
  fichub_title :: string
  fichub_url :: string
  fichub_description :: string
  fichub_author :: story_author
  fichub_updated :: datetime
  fichub_status :: string
  fichub_fandoms :: "string list"
  fichub_characters :: "string list"
  fichub_more_meta :: "(string \<times> string list) list"
  fichub_stats :: "(string \<times> int) list"
  fichub_rating :: string
  fichub_words :: int
  fichub_chapters :: int

text \<open>\<open>StoryDataType\<close>: what a resolution returns when it is not \<open>None\<close>.\<close>

datatype story_data =
    AtlasStory atlas_story
  | FicHubStory fichub_story
  | Work ao3_work
  | Series ao3_series

section \<open>The result renderer\<close>

text \<open>
  A card is a \<open>discord.Embed\<close>. \<open>is_not_found\<close> tells the subclass \<open>NotFoundEmbed\<close>.
  The length of an embed is the library's: title, description, the name and the value of
  each field, the footer's text and the author's name.
\<close>

record embed_author =
  ea_name :: string
  ea_url :: string
  ea_icon_url :: "icon option"

record embed_field =
  field_name :: string
  field_value :: string
  field_inline :: bool

record embed =
  title :: "string option"
  url :: "string option"
  description :: "string option"
  timestamp :: datetime
  author :: "embed_author option"
  embed_fields :: "embed_field list"
  footer :: "string option"
  is_not_found :: bool

definition Embed :: "string option \<Rightarrow> string option \<Rightarrow> string option \<Rightarrow> datetime \<Rightarrow> embed" where
  "Embed t u d ts =
     \<lparr>title = t, url = u, description = d, timestamp = ts, author = None, embed_fields = [],
      footer = None, is_not_found = False\<rparr>"

definition set_author :: "string \<Rightarrow> string \<Rightarrow> icon option \<Rightarrow> embed \<Rightarrow> embed" where
  "set_author n u i e = e\<lparr>author := Some \<lparr>ea_name = n, ea_url = u, ea_icon_url = i\<rparr>\<rparr>"

definition add_field :: "string \<Rightarrow> string \<Rightarrow> bool \<Rightarrow> embed \<Rightarrow> embed" where
  "add_field n v i e =
     e\<lparr>embed_fields := embed_fields e @ [\<lparr>field_name = n, field_value = v, field_inline = i\<rparr>]\<rparr>"

definition set_footer :: "string \<Rightarrow> embed \<Rightarrow> embed" where
  "set_footer t e = e\<lparr>footer := Some t\<rparr>"

definition opt_len :: "string option \<Rightarrow> nat" where
  "opt_len x = (case x of None \<Rightarrow> 0 | Some s \<Rightarrow> length s)"

definition embed_len :: "embed \<Rightarrow> nat" where
  "embed_len e =
     opt_len (title e) + opt_len (description e) +
     sum_list (map (\<lambda>f. length (field_name f) + length (field_value f)) (embed_fields e)) +
     opt_len (footer e) +
     (case author e of None \<Rightarrow> 0 | Some a \<Rightarrow> length (ea_name a))"

text \<open>
  \<open>textwrap.shorten(text, width, placeholder=...)\<close> is the standard library's; the
  builders take it as the parameter \<open>sh\<close>. What the library promises is
  \<open>shorten_contract\<close>: the call raises \<open>ValueError\<close> when the width is not positive or
  the placeholder does not fit in it, and returns a string of at most \<open>width\<close>
  characters otherwise.
\<close>

type_synonym shorten = "string \<Rightarrow> int \<Rightarrow> string \<Rightarrow> exn + string"

definition lstrip :: "string \<Rightarrow> string" where
  "lstrip s = dropWhile is_space s"

definition shorten_raises :: "int \<Rightarrow> string \<Rightarrow> bool" where
  "shorten_raises width placeholder = (width \<le> 0 \<or> width < int (length (lstrip placeholder)))"

definition shorten_contract :: "shorten \<Rightarrow> bool" where
  "shorten_contract sh =
     (\<forall>text width placeholder.
        if shorten_raises width placeholder then sh text width placeholder = Inl ValueError
        else (\<exists>r. sh text width placeholder = Inr r \<and> int (length r) \<le> width))"

text \<open>Sequencing of calls that may raise: the first exception ends the computation.\<close>

definition bind :: "exn + 'a \<Rightarrow> ('a \<Rightarrow> exn + 'b) \<Rightarrow> exn + 'b" where
  "bind m f = (case m of Inl e \<Rightarrow> Inl e | Inr x \<Rightarrow> f x)"

text \<open>\<open>xs[0]\<close>, which raises \<open>IndexError\<close> on an empty list.\<close>

definition first :: "'a list \<Rightarrow> exn + 'a" where
  "first xs = (case xs of [] \<Rightarrow> Inl IndexError | x # _ \<Rightarrow> Inr x)"

text \<open>
  The clock: \<open>discord.utils.utcnow()\<close> is the parameter \<open>now\<close> of every builder, the
  time at which the card is built. The four \<open>create\<close> builders are wrapped in
  \<open>functools.cache\<close>, which returns the card built at an earlier call in place of a new
  one; a cached card is the builder's result at the clock of that earlier call.
\<close>

definition NotFoundEmbed :: "datetime \<Rightarrow> embed" where
  "NotFoundEmbed now =
     (Embed (Some ''No Results'') None
        (Some ''No results found. You may need to edit your search.'') now)
     \<lparr>is_not_found := True\<rparr>"

definition sep_bullet :: string where
  "sep_bullet = [CHR '' '', BULLET, CHR '' '']"

definition complete_suffix :: "bool \<Rightarrow> string" where
  "complete_suffix is_complete = (if is_complete then '' (Complete)'' else [])"

definition create_ao3_work_embed :: "shorten \<Rightarrow> datetime \<Rightarrow> ao3_work \<Rightarrow> exn + embed" where
  "create_ao3_work_embed sh now work =
     (let updated =
            (case work_date_updated work of
               Some d \<Rightarrow> strftime d @ complete_suffix (work_is_complete work)
             | None \<Rightarrow> ''Unknown'');
          author_names = join '', '' (map (\<lambda>a. str_opt (user_name a)) (work_authors work))
      in
      bind (sh (join '', '' (work_fandoms work)) 100 ''...'') (\<lambda>fandoms.
      bind (sh (join '', '' (work_categories work)) 100 ''...'') (\<lambda>categories.
      bind (sh (join '', '' (work_characters work)) 100 ''...'') (\<lambda>characters.
      let details = join sep_bullet [fandoms, categories, characters];
          stats_str = join sep_bullet
            [''**Comments:** '' @ commas (work_ncomments work),
             ''**Kudos:** '' @ commas (work_nkudos work),
             ''**Bookmarks:** '' @ commas (work_nbookmarks work),
             ''**Hits:** '' @ commas (work_nhits work)]
      in
      bind (first (work_authors work)) (\<lambda>author0.
      let author_url = ''https://archiveofourown.org/users/'' @ str_opt (user_name author0);
          ao3_embed =
            set_footer ''A substitute for displaying AO3 information.''
            (add_field (BAR_CHART # '' Stats'') stats_str False
            (add_field (BOOKMARK # '' Rating: '' @ work_rating work) details False
            (add_field (OPEN_BOOK # '' Length'')
               (commas (work_nwords work) @ '' words in '' @ str_int (work_nchapters work)
                @ '' chapter(s)'') True
            (add_field (SCROLL # '' Last Updated'') updated True
            (set_author author_names author_url (Some (icon_url AO3))
            (Embed (Some (work_title work)) (Some (work_url work)) None now))))))
      in
      bind (sh (work_summary work) (6000 - int (embed_len ao3_embed)) ''...'') (\<lambda>d.
      Inr (ao3_embed\<lparr>description := Some d\<rparr>)))))))"

definition work_link :: "ao3_work \<Rightarrow> string" where
  "work_link work = ''['' @ work_title work @ '']('' @ work_url work @ '')''"

definition create_ao3_series_embed :: "shorten \<Rightarrow> datetime \<Rightarrow> ao3_series \<Rightarrow> exn + embed" where
  "create_ao3_series_embed sh now series =
     bind (first (series_creators series)) (\<lambda>creator0.
     let author_url = ''https://archiveofourown.org/users/'' @ str_opt (user_name creator0);
         updated =
           (case series_date_updated series of
              Some d \<Rightarrow> strftime d @ complete_suffix (series_is_complete series)
            | None \<Rightarrow> ''Unknown'');
         author_names = join '', ''
           (concat (map (\<lambda>creator. case user_name creator of
                                     None \<Rightarrow> []
                                   | Some name \<Rightarrow> if name = [] then [] else [name])
              (series_creators series)));
         work_links = BOOKS # '' **Works:**'' @ [CHR 0x0A] @
           join [CHR 0x0A] (map work_link (series_works_list series));
         ao3_embed =
           set_footer ''A substitute for displaying AO3 information.''
           (add_field (OPEN_BOOK # '' Length'')
              (commas (series_nwords series) @ '' words in '' @ str_int (series_nworks series)
               @ '' work(s)'') True
           (add_field (SCROLL # '' Last Updated'') updated True
           (set_author author_names author_url (Some (icon_url AO3))
           (Embed (Some (series_name series)) (Some (series_url series)) (Some work_links) now))))
     in
     bind (sh (series_description series @ [CHR 0x0A, CHR 0x0A])
             (6000 - int (embed_len ao3_embed)) (''...'' @ [CHR 0x0A, CHR 0x0A])) (\<lambda>series_descr.
     Inr (ao3_embed\<lparr>description :=
            Some (series_descr @ (case description ao3_embed of None \<Rightarrow> [] | Some d \<Rightarrow> d))\<rparr>)))"

definition create_atlas_ffn_embed :: "shorten \<Rightarrow> datetime \<Rightarrow> atlas_story \<Rightarrow> exn + embed" where
  "create_atlas_ffn_embed sh now story =
     (let update_date = (case atlas_updated story of Some d \<Rightarrow> d | None \<Rightarrow> atlas_published story);
          updated = strftime update_date @ complete_suffix (atlas_is_complete story)
      in
      bind (sh (join '', '' (atlas_fandoms story)) 100 ''...'') (\<lambda>fandoms.
      bind (sh (join ''/'' (atlas_genres story)) 100 ''...'') (\<lambda>genres.
      bind (sh (join '', '' (atlas_characters story)) 100 ''...'') (\<lambda>characters.
      let details = join sep_bullet [fandoms, genres, characters];
          stats = ''**Reviews:** '' @ commas (atlas_reviews story) @ sep_bullet
            @ ''**Faves:** '' @ commas (atlas_favorites story) @ sep_bullet
            @ ''**Follows:** '' @ commas (atlas_follows story);
          ffn_embed =
            set_footer
              ''Made using iris's Atlas API. Some results may be out of date or unavailable.''
            (add_field (BAR_CHART # '' Stats'') stats False
            (add_field (BOOKMARK # '' Rating: Fiction '' @ atlas_rating story) details False
            (add_field (OPEN_BOOK # '' Length'')
               (commas (atlas_words story) @ '' words in '' @ str_int (atlas_chapters story)
                @ '' chapter(s)'') True
            (add_field (SCROLL # '' Last Updated'') updated True
            (set_author (author_name (atlas_author story)) (author_url (atlas_author story))
               (Some (icon_url FFN))
            (Embed (Some (atlas_title story)) (Some (atlas_url story))
               (Some (atlas_description story)) now))))))
      in
      bind (sh (atlas_description story) (6000 - int (embed_len ffn_embed)) ''...'') (\<lambda>d.
      Inr (ffn_embed\<lparr>description := Some d\<rparr>))))))"

text \<open>
  \<open>d[key]\<close>, which raises \<open>KeyError\<close> for a missing key, and the calls of a generator
  in order, which stop at the first that raises.
\<close>

definition getitem :: "(string \<times> 'v) list \<Rightarrow> string \<Rightarrow> exn + 'v" where
  "getitem d k = (case map_of d k of None \<Rightarrow> Inl KeyError | Some v \<Rightarrow> Inr v)"

fun sequence :: "(exn + 'a) list \<Rightarrow> exn + 'a list" where
  "sequence [] = Inr []"
| "sequence (m # ms) = bind m (\<lambda>x. bind (sequence ms) (\<lambda>xs. Inr (x # xs)))"

text \<open>
  The icon of a FicHub card: that of the first site of the registry whose pattern is
  found in the story's url, or none.
\<close>

definition site_icon :: "string \<Rightarrow> icon option" where
  "site_icon u =
     (case filter (\<lambda>v. re_search (story_regex v) u \<noteq> None) (map snd STORY_WEBSITE_STORE) of
        [] \<Rightarrow> None
      | v # vs \<Rightarrow> Some (icon_url v))"

definition create_fichub_embed :: "shorten \<Rightarrow> datetime \<Rightarrow> fichub_story \<Rightarrow> exn + embed" where
  "create_fichub_embed sh now story =
     (let updated = strftime (fichub_updated story) in
      bind (sh (join '', '' (fichub_fandoms story)) 100 ''...'') (\<lambda>fandoms.
      let categories_list =
            (case map_of (fichub_more_meta story) ''category'' of None \<Rightarrow> [] | Some cs \<Rightarrow> cs)
      in
      bind (sh (join '', '' categories_list) 100 ''...'') (\<lambda>categories.
      bind (sh (join '', '' (fichub_characters story)) 100 ''...'') (\<lambda>characters.
      let details = join sep_bullet [fandoms, categories, characters];
          icon = site_icon (fichub_url story)
      in
      bind
        (if contains ''fanfiction.net'' (fichub_url story) then
           bind (sequence (map (\<lambda>name.
                   bind (getitem (fichub_stats story) name) (\<lambda>n.
                   Inr (''**'' @ capitalize name @ '':** '' @ commas n)))
                 [''reviews'', ''favorites'', ''follows'']))
             (\<lambda>stats. Inr (join sep_bullet stats))
         else if contains ''archiveofourown.org'' (fichub_url story) then
           Inr (join sep_bullet
             (concat (map (\<lambda>stat_name.
                 case map_of (fichub_stats story) stat_name of
                   None \<Rightarrow> []
                 | Some ind_stat \<Rightarrow> [''**'' @ capitalize stat_name @ '':** '' @ commas ind_stat])
               [''comments'', ''kudos'', ''bookmarks'', ''hits''])))
         else Inr ''No stats available at this time.'') (\<lambda>stats_str.
      let story_embed =
            set_footer
              ''Made using the FicHub API. Some results may be out of date or unavailable.''
            (add_field (BAR_CHART # '' Stats'') stats_str False
            (add_field (BOOKMARK # '' Rating: '' @ fichub_rating story) details False
            (add_field (OPEN_BOOK # '' Length'')
               (commas (fichub_words story) @ '' words in '' @ str_int (fichub_chapters story)
                @ '' chapter(s)'') True
            (add_field (SCROLL # '' Last Updated'')
               (updated @ '' ('' @ capitalize (fichub_status story) @ '')'') True
            (set_author (author_name (fichub_author story)) (author_url (fichub_author story)) icon
            (Embed (Some (fichub_title story)) (Some (fichub_url story))
               (Some (fichub_description story)) now))))))
      in
      bind (sh (fichub_description story) (6000 - int (embed_len story_embed)) ''...'') (\<lambda>d.
      Inr (story_embed\<lparr>description := Some d\<rparr>)))))))"

text \<open>
  \<open>ff_embed_factory\<close>: the builder for the type of the story data, and the
  \<open>NotFoundEmbed\<close> for \<open>None\<close>.
\<close>

definition ff_embed_factory :: "shorten \<Rightarrow> datetime \<Rightarrow> story_data option \<Rightarrow> exn + embed" where
  "ff_embed_factory sh now story_data =
     (case story_data of
        None \<Rightarrow> Inr (NotFoundEmbed now)
      | Some (AtlasStory s) \<Rightarrow> create_atlas_ffn_embed sh now s
      | Some (FicHubStory s) \<Rightarrow> create_fichub_embed sh now s
      | Some (Work w) \<Rightarrow> create_ao3_work_embed sh now w
      | Some (Series s) \<Rightarrow> create_ao3_series_embed sh now s)"

text \<open>
  An implementation of the contract of \<open>textwrap.shorten\<close>, in which a word ends at
  whitespace only: the text with its whitespace collapsed when that fits in the width,
  and otherwise its longest run of leading words that leaves room for the placeholder,
  followed by the placeholder.
\<close>

fun split_ws :: "string \<Rightarrow> string \<Rightarrow> string list" where
  "split_ws cur [] = (if cur = [] then [] else [cur])"
| "split_ws cur (c # cs) =
     (if is_space c then (if cur = [] then split_ws [] cs else cur # split_ws [] cs)
      else split_ws (cur @ [c]) cs)"

definition shorten_words :: shorten where
  "shorten_words text width placeholder =
     (if shorten_raises width placeholder then Inl ValueError
      else
        let ws = split_ws [] text; t = join '' '' ws in
        if int (length t) \<le> width then Inr t
        else
          (case filter (\<lambda>s. s \<noteq> [] \<and> int (length s) + int (length placeholder) \<le> width)
                  (map (\<lambda>k. join '' '' (take k ws)) [0 ..< Suc (length ws)]) of
             [] \<Rightarrow> Inr (lstrip placeholder)
           | s # ss \<Rightarrow> Inr (last (s # ss) @ placeholder)))"

section \<open>The paginated browser\<close>

text \<open>
  \<open>AO3SeriesView\<close>: the series, the page index, the options of the select menu and
  the \<open>disabled\<close> flags of the two page buttons. Page 0 shows the series, page \<open>i\<close>
  the work \<open>works_list[i - 1]\<close>. The select menu of the library takes at most 25
  options; adding one more raises \<open>ValueError\<close>.
\<close>

record select_option =
  option_label :: string
  option_value :: string
  option_description :: string

record AO3SeriesView =
  view_author_id :: int
  view_series :: ao3_series
  page_index :: int
  select_placeholder :: string
  select_options :: "select_option list"
  turn_to_previous_disabled :: bool
  turn_to_next_disabled :: bool

definition total_pages :: "AO3SeriesView \<Rightarrow> int" where
  "total_pages view = int (length (series_works_list (view_series view)))"

definition interaction_check :: "AO3SeriesView \<Rightarrow> int \<Rightarrow> bool" where
  "interaction_check view user_id = (view_author_id view = user_id)"

text \<open>\<open>xs[i]\<close> for a list and an integer, with Python's negative indices.\<close>

definition getindex :: "'a list \<Rightarrow> int \<Rightarrow> exn + 'a" where
  "getindex xs i =
     (if 0 \<le> i \<and> i < int (length xs) then Inr (xs ! nat i)
      else if i < 0 \<and> - int (length xs) \<le> i then Inr (xs ! nat (int (length xs) + i))
      else Inl IndexError)"

definition format_page :: "shorten \<Rightarrow> datetime \<Rightarrow> AO3SeriesView \<Rightarrow> exn + embed" where
  "format_page sh now view =
     (if page_index view \<noteq> 0 then
        bind (getindex (series_works_list (view_series view)) (page_index view - 1))
          (create_ao3_work_embed sh now)
      else create_ao3_series_embed sh now (view_series view))"

definition add_option :: "string \<Rightarrow> string \<Rightarrow> string \<Rightarrow> AO3SeriesView \<Rightarrow> exn + AO3SeriesView" where
  "add_option l v d view =
     (if 25 \<le> length (select_options view) then Inl ValueError
      else Inr (view\<lparr>select_options := select_options view @
             [\<lparr>option_label = l, option_value = v, option_description = d\<rparr>]\<rparr>))"

fun add_work_options :: "shorten \<Rightarrow> int \<Rightarrow> ao3_work list \<Rightarrow> AO3SeriesView \<Rightarrow> exn + AO3SeriesView" where
  "add_work_options sh i [] view = Inr view"
| "add_work_options sh i (work # works) view =
     bind (sh (work_summary work) 100 ''...'') (\<lambda>descr.
     bind (add_option (str_int i @ ''. '' @ work_title work) (str_int i) descr view)
       (add_work_options sh (i + 1) works))"

definition populate_select :: "shorten \<Rightarrow> AO3SeriesView \<Rightarrow> exn + AO3SeriesView" where
  "populate_select sh view =
     bind (sh (series_description (view_series view)) 100 ''...'') (\<lambda>descr.
     bind (add_option (series_name (view_series view)) ''0'' descr
             (view\<lparr>select_placeholder := ''Choose the work here...''\<rparr>))
       (add_work_options sh 1 (series_works_list (view_series view))))"

definition disable_page_buttons :: "AO3SeriesView \<Rightarrow> AO3SeriesView" where
  "disable_page_buttons view =
     view\<lparr>turn_to_previous_disabled := (page_index view = 0),
          turn_to_next_disabled := (page_index view = total_pages view - 1)\<rparr>"

text \<open>The constructor: page 0, the select populated, the buttons set for page 0.\<close>

definition new_view :: "shorten \<Rightarrow> int \<Rightarrow> ao3_series \<Rightarrow> exn + AO3SeriesView" where
  "new_view sh author_id series =
     bind (populate_select sh
             \<lparr>view_author_id = author_id, view_series = series, page_index = 0,
              select_placeholder = [], select_options = [],
              turn_to_previous_disabled = False, turn_to_next_disabled = False\<rparr>)
       (\<lambda>view. Inr (disable_page_buttons view))"

text \<open>
  \<open>update_page\<close> renders the page and then sets the buttons; when the rendering raises,
  the view keeps the page index it was given and its buttons are not set again. The
  three callbacks change the page index and update the page.
\<close>

definition update_page :: "shorten \<Rightarrow> datetime \<Rightarrow> AO3SeriesView \<Rightarrow> (exn + embed) \<times> AO3SeriesView" where
  "update_page sh now view =
     (case format_page sh now view of
        Inl e \<Rightarrow> (Inl e, view)
      | Inr embed_page \<Rightarrow> (Inr embed_page, disable_page_buttons view))"

definition select_page :: "shorten \<Rightarrow> datetime \<Rightarrow> string \<Rightarrow> AO3SeriesView
    \<Rightarrow> (exn + embed) \<times> AO3SeriesView" where
  "select_page sh now v view = update_page sh now (view\<lparr>page_index := int_of_digits v\<rparr>)"

definition turn_to_previous :: "shorten \<Rightarrow> datetime \<Rightarrow> AO3SeriesView
    \<Rightarrow> (exn + embed) \<times> AO3SeriesView" where
  "turn_to_previous sh now view = update_page sh now (view\<lparr>page_index := page_index view - 1\<rparr>)"

definition turn_to_next :: "shorten \<Rightarrow> datetime \<Rightarrow> AO3SeriesView
    \<Rightarrow> (exn + embed) \<times> AO3SeriesView" where
  "turn_to_next sh now view = update_page sh now (view\<lparr>page_index := page_index view + 1\<rparr>)"

text \<open>
  A user's presses of the \<open>>\<close> button, one after the other: the chat client does not
  deliver a press of a disabled button, so such a press leaves the view as it is. The
  result is the page index after each press.
\<close>

fun press_next :: "shorten \<Rightarrow> datetime \<Rightarrow> nat \<Rightarrow> AO3SeriesView \<Rightarrow> int list" where
  "press_next sh now 0 view = []"
| "press_next sh now (Suc n) view =
     (let view' = (if turn_to_next_disabled view then view else snd (turn_to_next sh now view))
      in page_index view' # press_next sh now n view')"

section \<open>The resolution engine\<close>

text \<open>
  The three provider clients are parameters: each call answers with a record, with
  \<open>None\<close>, or raises. \<open>extract_fic_id\<close> is the Atlas library's function from a text to
  the story id in it, if any. What a resolution does besides returning is its trace: the
  calls it made and the messages it logged, in order.
\<close>

record clients =
  ao3_get_series :: "int \<Rightarrow> exn + ao3_series option"
  ao3_get_work :: "int \<Rightarrow> exn + ao3_work option"
  ao3_search_works :: "string \<Rightarrow> exn + ao3_work list"
  atlas_get_story_metadata :: "int \<Rightarrow> exn + atlas_story option"
  atlas_get_bulk_metadata :: "string \<Rightarrow> int \<Rightarrow> exn + atlas_story list"
  fichub_get_story_metadata :: "string \<Rightarrow> exn + fichub_story option"
  extract_fic_id :: "string \<Rightarrow> int option"

datatype event =
    AO3_get_series int
  | AO3_get_work int
  | AO3_search_works string
  | Atlas_get_story_metadata int
  | Atlas_get_bulk_metadata string int
  | FicHub_get_story_metadata string
  | Log_exception string
  | Log_warning string
  | Send embed "AO3SeriesView option"

text \<open>\<open>int(x)\<close> for the text of a group, which is \<open>None\<close> when the group took no part.\<close>

definition py_int :: "string option \<Rightarrow> exn + int" where
  "py_int x =
     (case x of
        None \<Rightarrow> Inl OtherException
      | Some s \<Rightarrow> if s \<noteq> [] \<and> list_all is_digit s then Inr (int_of_digits s) else Inl ValueError)"

definition search_ao3 :: "clients \<Rightarrow> string \<Rightarrow> (exn + story_data option) \<times> event list" where
  "search_ao3 cl name_or_url =
     (case re_search (story_regex AO3) name_or_url of
        Some m \<Rightarrow>
          if group m ''type'' = Some ''series'' then
            (case py_int (group m ''ao3_id'') of
               Inl e \<Rightarrow> (Inl e, [])
             | Inr series_id \<Rightarrow>
                 (case ao3_get_series cl series_id of
                    Inr s \<Rightarrow> (Inr (map_option Series s), [AO3_get_series series_id])
                  | Inl AO3Exception \<Rightarrow>
                      (Inr None, [AO3_get_series series_id, Log_exception []])
                  | Inl e \<Rightarrow> (Inl e, [AO3_get_series series_id])))
          else
            (let url = m_text m in
             case fichub_get_story_metadata cl url of
               Inr s \<Rightarrow> (Inr (map_option FicHubStory s), [FicHub_get_story_metadata url])
             | Inl FicHubException \<Rightarrow>
                 (let tr = [FicHub_get_story_metadata url,
                       Log_warning
                         ''Retrieval with Fichub client failed. Trying the AO3 scraping library now.'']
                  in
                  case py_int (group m ''ao3_id'') of
                    Inl e \<Rightarrow> (Inl e, tr)
                  | Inr work_id \<Rightarrow>
                      (case ao3_get_work cl work_id of
                         Inr w \<Rightarrow> (Inr (map_option Work w), tr @ [AO3_get_work work_id])
                       | Inl AO3Exception \<Rightarrow>
                           (Inr None, tr @ [AO3_get_work work_id,
                              Log_warning
                                ''Retrieval with Fichub client and AO3 scraping library failed. Returning None.''])
                       | Inl e \<Rightarrow> (Inl e, tr @ [AO3_get_work work_id])))
             | Inl e \<Rightarrow> (Inl e, [FicHub_get_story_metadata url]))
      | None \<Rightarrow>
          (case ao3_search_works cl name_or_url of
             Inl e \<Rightarrow> (Inl e, [AO3_search_works name_or_url])
           | Inr results \<Rightarrow>
               (Inr (case results of [] \<Rightarrow> None | w # ws \<Rightarrow> Some (Work w)),
                [AO3_search_works name_or_url])))"

text \<open>
  In \<open>search_ffn\<close> the extracted id is tested for truth: \<open>None\<close> and \<open>0\<close> both lead
  to the search by title.
\<close>

definition search_ffn_title :: "clients \<Rightarrow> string \<Rightarrow> (exn + story_data option) \<times> event list" where
  "search_ffn_title cl name_or_url =
     (let pat = ''%'' @ name_or_url @ ''%'' in
      case atlas_get_bulk_metadata cl pat 1 of
        Inl e \<Rightarrow> (Inl e, [Atlas_get_bulk_metadata pat 1])
      | Inr results \<Rightarrow>
          (Inr (case results of [] \<Rightarrow> None | s # ss \<Rightarrow> Some (AtlasStory s)),
           [Atlas_get_bulk_metadata pat 1]))"

definition search_ffn_id :: "clients \<Rightarrow> int \<Rightarrow> string \<Rightarrow> (exn + story_data option) \<times> event list" where
  "search_ffn_id cl fic_id name_or_url =
     (case atlas_get_story_metadata cl fic_id of
        Inr s \<Rightarrow> (Inr (map_option AtlasStory s), [Atlas_get_story_metadata fic_id])
      | Inl AtlasException \<Rightarrow>
          (let tr = [Atlas_get_story_metadata fic_id,
                Log_warning ''Retrieval with Atlas client failed. Trying FicHub now.'',
                FicHub_get_story_metadata name_or_url]
           in
           case fichub_get_story_metadata cl name_or_url of
             Inr s \<Rightarrow> (Inr (map_option FicHubStory s), tr)
           | Inl FicHubException \<Rightarrow>
               (Inr None, tr @ [Log_warning
                  ''Retrieval with Atlas and Fichub clients failed. Returning None.''])
           | Inl e \<Rightarrow> (Inl e, tr))
      | Inl e \<Rightarrow> (Inl e, [Atlas_get_story_metadata fic_id]))"

definition search_ffn :: "clients \<Rightarrow> string \<Rightarrow> (exn + story_data option) \<times> event list" where
  "search_ffn cl name_or_url =
     (case extract_fic_id cl name_or_url of
        None \<Rightarrow> search_ffn_title cl name_or_url
      | Some fic_id \<Rightarrow>
          if fic_id \<noteq> 0 then search_ffn_id cl fic_id name_or_url
          else search_ffn_title cl name_or_url)"

definition search_other :: "clients \<Rightarrow> string \<Rightarrow> (exn + story_data option) \<times> event list" where
  "search_other cl u =
     (case fichub_get_story_metadata cl u of
        Inl e \<Rightarrow> (Inl e, [FicHub_get_story_metadata u])
      | Inr s \<Rightarrow> (Inr (map_option FicHubStory s), [FicHub_get_story_metadata u]))"

text \<open>
  \<open>get_ff_data_from_links\<close> is a generator with one step for each match of the combined
  pattern. It is the list of its steps: what a step yields or raises, and the step's
  trace. A step runs only when all steps before it have yielded, and the generator ends
  at the first step that raises; \<open>consume\<close> is what a caller gets that iterates to the
  end.
\<close>

definition link_step :: "clients \<Rightarrow> re_match \<Rightarrow> (exn + story_data option) \<times> event list" where
  "link_step cl match_obj =
     (if lastgroup match_obj = Some ''FFN'' then
        (case py_int (group match_obj ''ffn_id'') of
           Inl e \<Rightarrow> (Inl e, [])
         | Inr n \<Rightarrow>
             (case atlas_get_story_metadata cl n of
                Inl e \<Rightarrow> (Inl e, [Atlas_get_story_metadata n])
              | Inr s \<Rightarrow> (Inr (map_option AtlasStory s), [Atlas_get_story_metadata n])))
      else if lastgroup match_obj = Some ''AO3'' then search_ao3 cl (m_text match_obj)
      else if lastgroup match_obj \<noteq> None then search_other cl (m_text match_obj)
      else (Inr None, []))"

definition get_ff_data_from_links :: "clients \<Rightarrow> string
    \<Rightarrow> ((exn + story_data option) \<times> event list) list" where
  "get_ff_data_from_links cl text = map (link_step cl) (finditer STORY_WEBSITE_REGEX text)"

fun consume :: "((exn + 'a) \<times> event list) list \<Rightarrow> 'a list \<times> exn option \<times> event list" where
  "consume [] = ([], None, [])"
| "consume ((Inl e, tr) # steps) = ([], Some e, tr)"
| "consume ((Inr x, tr) # steps) =
     (case consume steps of (xs, err, tr') \<Rightarrow> (x # xs, err, tr @ tr'))"

section \<open>Responding\<close>

text \<open>
  \<open>on_message\<close> and the command \<open>wf_search\<close>. A response is the exception that ended
  it, if any, and its trace, in which \<open>Send\<close> is a card posted to the channel.
\<close>

record message =
  author_is_self :: bool
  guild :: "int option"
  channel :: int
  content :: string

fun respond :: "shorten \<Rightarrow> datetime \<Rightarrow> ((exn + story_data option) \<times> event list) list
    \<Rightarrow> exn option \<times> event list" where
  "respond sh now [] = (None, [])"
| "respond sh now ((Inl e, tr) # steps) = (Some e, tr)"
| "respond sh now ((Inr None, tr) # steps) =
     (case respond sh now steps of (err, tr') \<Rightarrow> (err, tr @ tr'))"
| "respond sh now ((Inr (Some x), tr) # steps) =
     (case ff_embed_factory sh now (Some x) of
        Inl e \<Rightarrow> (Some e, tr)
      | Inr emb \<Rightarrow>
          (case respond sh now steps of (err, tr') \<Rightarrow>
             (err, tr @ (if \<not> is_not_found emb then [Send emb None] else []) @ tr')))"

definition on_message :: "shorten \<Rightarrow> datetime \<Rightarrow> clients \<Rightarrow> connection \<Rightarrow> message
    \<Rightarrow> exn option \<times> event list" where
  "on_message sh now cl conn msg =
     (if author_is_self msg then (None, [])
      else
        case guild msg of
          None \<Rightarrow> (None, [])
        | Some gid \<Rightarrow>
            (case fst (get_guild_autoresponse_channels conn gid) of
               Inl e \<Rightarrow> (Some e, [])
             | Inr channels_cache \<Rightarrow>
                 if channels_cache \<noteq> [] \<and> (gid, channel msg) \<in> set channels_cache
                    \<and> re_search STORY_WEBSITE_REGEX (content msg) \<noteq> None
                 then respond sh now (get_ff_data_from_links cl (content msg))
                 else (None, [])))"

datatype platform = Platform_ao3 | Platform_ffn | Platform_other

definition wf_search :: "shorten \<Rightarrow> datetime \<Rightarrow> clients \<Rightarrow> int \<Rightarrow> platform \<Rightarrow> string
    \<Rightarrow> exn option \<times> event list" where
  "wf_search sh now cl user_id pf name_or_url =
     (case (case pf of
              Platform_ao3 \<Rightarrow> search_ao3 cl name_or_url
            | Platform_ffn \<Rightarrow> search_ffn cl name_or_url
            | Platform_other \<Rightarrow> search_other cl name_or_url) of
        (Inl e, tr) \<Rightarrow> (Some e, tr)
      | (Inr story_data, tr) \<Rightarrow>
          (case ff_embed_factory sh now story_data of
             Inl e \<Rightarrow> (Some e, tr)
           | Inr emb \<Rightarrow>
               (case story_data of
                  Some (Series s) \<Rightarrow>
                    (case new_view sh user_id s of
                       Inl e \<Rightarrow> (Some e, tr)
                     | Inr view \<Rightarrow> (None, tr @ [Send emb (Some view)]))
                | _ \<Rightarrow> (None, tr @ [Send emb None]))))"

section \<open>Observations on traces and cards\<close>

text \<open>Whether a trace has a call of the FicHub client, and the cards it posts.\<close>

definition is_fichub_call :: "event \<Rightarrow> bool" where
  "is_fichub_call ev = (case ev of FicHub_get_story_metadata u \<Rightarrow> True | _ \<Rightarrow> False)"

definition fichub_invoked :: "event list \<Rightarrow> bool" where
  "fichub_invoked tr = list_ex is_fichub_call tr"

definition sent :: "event list \<Rightarrow> embed list" where
  "sent tr = concat (map (\<lambda>ev. case ev of Send c v \<Rightarrow> [c] | _ \<Rightarrow> []) tr)"

text \<open>The value of the card's field \<open>Last Updated\<close>.\<close>

definition last_updated_value :: "embed \<Rightarrow> string option" where
  "last_updated_value c =
     (case filter (\<lambda>f. field_name f = SCROLL # '' Last Updated'') (embed_fields c) of
        [] \<Rightarrow> None
      | f # fs \<Rightarrow> Some (field_value f))"

section \<open>Example inputs\<close>

text \<open>Concrete records, two clock readings and clients, on which the properties are run.\<close>

definition t1 :: datetime where
  "t1 = \<lparr>year = 2024, month = March, day = 5, hour = 10, minute = 0, second = 0\<rparr>"

definition t2 :: datetime where
  "t2 = \<lparr>year = 2024, month = March, day = 5, hour = 10, minute = 0, second = 1\<rparr>"

definition work1 :: ao3_work where
  "work1 =
     \<lparr>work_title = ''W1'', work_url = ''u1'',
      work_authors = [\<lparr>user_name = Some ''ann''\<rparr>],
      work_date_updated =
        Some \<lparr>year = 2023, month = July, day = 9, hour = 0, minute = 0, second = 0\<rparr>,
      work_is_complete = True, work_fandoms = [''F''],
      work_categories = [], work_characters = [''X''], work_rating = ''G'',
      work_summary = ''S'', work_nwords = 1234, work_nchapters = 3,
      work_ncomments = 1, work_nkudos = 2, work_nbookmarks = 0, work_nhits = 7\<rparr>"

definition work2 :: ao3_work where
  "work2 = work1\<lparr>work_title := ''W2'', work_url := ''u2'', work_date_updated := None\<rparr>"

definition work3 :: ao3_work where
  "work3 = work1\<lparr>work_title := ''W3'', work_url := ''u3'', work_is_complete := False\<rparr>"

definition series1 :: ao3_series where
  "series1 =
     \<lparr>series_name = ''Se'', series_url = ''us'',
      series_creators = [\<lparr>user_name = Some ''ann''\<rparr>], series_description = ''D'',
      series_date_updated = None, series_is_complete = False, series_nwords = 3702,
      series_nworks = 3, series_works_list = [work1, work2, work3]\<rparr>"

definition atlas1 :: atlas_story where
  "atlas1 =
     \<lparr>atlas_title = ''A1'', atlas_url = ''ua'', atlas_description = ''S'',
      atlas_author = \<lparr>author_name = ''bob'', author_url = ''ub''\<rparr>,
      atlas_updated = None,
      atlas_published =
        \<lparr>year = 2020, month = January, day = 31, hour = 0, minute = 0, second = 0\<rparr>,
      atlas_is_complete = False, atlas_fandoms = [''F''], atlas_genres = [],
      atlas_characters = [], atlas_rating = ''T'', atlas_words = 5000, atlas_chapters = 2,
      atlas_reviews = 1, atlas_favorites = 2, atlas_follows = 3\<rparr>"

definition fichub1 :: fichub_story where
  "fichub1 =
     \<lparr>fichub_title = ''H1'', fichub_url = ''uf'', fichub_description = ''S'',
      fichub_author = \<lparr>author_name = ''cy'', author_url = ''uc''\<rparr>,
      fichub_updated =
        \<lparr>year = 2022, month = December, day = 25, hour = 0, minute = 0, second = 0\<rparr>,
      fichub_status = ''ongoing'', fichub_fandoms = [], fichub_characters = [],
      fichub_more_meta = [], fichub_stats = [], fichub_rating = ''M'', fichub_words = 9,
      fichub_chapters = 4\<rparr>"

text \<open>
  Clients in which every call raises the provider's exception. The id of a text is the
  one of the first FanFiction.Net story url in it.
\<close>

definition failing_clients :: clients where
  "failing_clients =
     \<lparr>ao3_get_series = (\<lambda>i. Inl AO3Exception),
      ao3_get_work = (\<lambda>i. Inl AO3Exception),
      ao3_search_works = (\<lambda>q. Inl AO3Exception),
      atlas_get_story_metadata = (\<lambda>i. Inl AtlasException),
      atlas_get_bulk_metadata = (\<lambda>q n. Inl AtlasException),
      fichub_get_story_metadata = (\<lambda>u. Inl FicHubException),
      extract_fic_id = (\<lambda>q.
         case re_search (story_regex FFN) q of
           None \<Rightarrow> None
         | Some m \<Rightarrow> map_option int_of_digits (group m ''ffn_id''))\<rparr>"

text \<open>Clients in which every call answers, with the example records.\<close>

definition answering_clients :: clients where
  "answering_clients =
     failing_clients
       \<lparr>ao3_get_series := (\<lambda>i. Inr (Some series1)),
        ao3_get_work := (\<lambda>i. Inr (Some work1)),
        ao3_search_works := (\<lambda>q. Inr [work2, work1]),
        atlas_get_story_metadata := (\<lambda>i. Inr (Some atlas1)),
        atlas_get_bulk_metadata := (\<lambda>q n. Inr [atlas1]),
        fichub_get_story_metadata := (\<lambda>u. Inr (Some fichub1))\<rparr>"

section \<open>Properties of the settings store\<close>

lemma fresh_store_eq:
  "fresh_store = [''webfic_autoresponse_settings'' \<mapsto> []]"
  by (simp add: fresh_store_def setup_db_def execute_def INITIALIZATION_STATEMENT_def)

lemma add_two_fresh:
  "add fresh_store [(1, 10), (1, 11)] =
     (Inr [(1, 10), (1, 11)], [''webfic_autoresponse_settings'' \<mapsto> [(1, 10), (1, 11)]])"
  by (simp add: fresh_store_eq add_def execute_def INSERT_CHANNEL_STATEMENT_def
      SELECT_BY_GUILD_STATEMENT_def bindings_def)

text \<open>
  C1. On the store as \<open>_setup_db\<close> creates it, adding the locations \<open>(1, 10)\<close> and
  \<open>(1, 11)\<close> returns exactly these two. The following \<open>clear 1\<close> does not empty
  scope 1: its statement deletes from the table \<open>fanfic_autoresponse_settings\<close>, which
  no statement creates, so it raises \<open>SQLError\<close>, the store is unchanged, and selecting
  scope 1 still returns both locations. Removing \<open>(1, 10)\<close> raises in the same way.
\<close>

theorem clear_after_add_raises:
  "(case add fresh_store [(1, 10), (1, 11)] of (r1, s1) \<Rightarrow>
      r1 = Inr [(1, 10), (1, 11)] \<and>
      (case clear s1 1 of (r2, s2) \<Rightarrow>
         r2 = Inl SQLError \<and> s2 = s1 \<and>
         fst (get_guild_autoresponse_channels s2 1) = Inr [(1, 10), (1, 11)] \<and>
         drop_locations s2 [(1, 10)] = (Inl SQLError, s2)))"
  by (simp add: add_two_fresh clear_def drop_locations_def execute_def bindings_def
      get_guild_autoresponse_channels_def query_def
      CLEAR_GUILD_CHANNELS_STATEMENT_def REMOVE_GUILD_CHANNEL_STATEMENT_def
      SELECT_BY_GUILD_STATEMENT_def)

text \<open>
  C9. With an empty batch, both \<open>_add\<close> and \<open>_drop\<close> raise \<open>IndexError\<close>, whatever
  the state of the store, and leave the store as it was: \<open>executemany\<close> has nothing to
  run, and \<open>locations[0]\<close> is read to select the scope.
\<close>

theorem empty_batch_raises_IndexError:
  "add conn [] = (Inl IndexError, conn) \<and> drop_locations conn [] = (Inl IndexError, conn)"
  by (simp add: add_def drop_locations_def)

section \<open>Properties of the paginated browser\<close>

lemma next_disabled_iff:
  "turn_to_next_disabled (disable_page_buttons view) = (page_index view = total_pages view - 1)"
  by (simp add: disable_page_buttons_def)

lemma previous_disabled_iff:
  "turn_to_previous_disabled (disable_page_buttons view) = (page_index view = 0)"
  by (simp add: disable_page_buttons_def)

text \<open>
  C3. A view on a series of three works has the pages 0 to 3. From page 0, four presses
  of \<open>>\<close> give the page indices 1, 2, 2, 2: the button is disabled at index 2, which
  is \<open>total_pages - 1\<close>, and page 3 is not reached by it. On page 3, reached through
  the select menu, the button is enabled, and its callback moves the index to 4 and
  raises \<open>IndexError\<close>.
\<close>

theorem next_disabled_one_page_early:
  "(case new_view shorten_words 5 series1 of
      Inl e \<Rightarrow> False
    | Inr view \<Rightarrow>
        total_pages view = 3 \<and> page_index view = 0 \<and>
        press_next shorten_words t1 4 view = [1, 2, 2, 2] \<and>
        (case select_page shorten_words t1 ''3'' view of (r3, view3) \<Rightarrow>
           isl r3 = False \<and> page_index view3 = 3 \<and> \<not> turn_to_next_disabled view3 \<and>
           turn_to_next shorten_words t1 view3 = (Inl IndexError, view3\<lparr>page_index := 4\<rparr>)))"
  by code_simp

section \<open>Properties of the resolution engine\<close>

text \<open>
  C2. A failure of the FicHub client passes through \<open>search_other\<close> to its caller. In
  the batch operation, a text with two links has two steps; when the Atlas client fails
  on the first, a FanFiction.Net link, the generator raises \<open>AtlasException\<close> to the
  caller that iterates it, having yielded nothing: there is no entry for either match.
\<close>

theorem provider_failure_reaches_caller:
  "search_other failing_clients ''forums.spacebattles.com/threads/t'' =
     (Inl FicHubException, [FicHub_get_story_metadata ''forums.spacebattles.com/threads/t'']) \<and>
   length (finditer STORY_WEBSITE_REGEX ''fanfiction.net/s/12 archiveofourown.org/works/3'') = 2 \<and>
   consume (get_ff_data_from_links failing_clients
       ''fanfiction.net/s/12 archiveofourown.org/works/3'') =
     ([], Some AtlasException, [Atlas_get_story_metadata 12])"
  by code_simp

end
